theory Spec2Isabelle
  imports Complex_Main "HOL-Library.AList"
begin

section \<open>JavaScript values\<close>

text \<open>
  The client works on values of type \<open>any\<close>: the decoded JSON body of a response and
  whatever a property read on it yields. One datatype holds them all. A decoded JSON
  document uses the constructors \<open>JNull\<close> .. \<open>JObj\<close>; \<open>JUndefined\<close> is the result of
  reading a property that is not there, and \<open>JNative f\<close> is the built-in method \<open>f\<close> that a
  property read finds on the prototype of a string (\<open>String.prototype.link\<close>,
  \<open>String.prototype.replace\<close>). Numbers are the integers (the counts and sizes of the
  payloads); an object is the list of its own properties in property order.
\<close>

datatype jsval =
    JUndefined
  | JNull
  | JBool bool
  | JNum int
  | JStr string
  | JArr "jsval list"
  | JObj "(string \<times> jsval) list"
  | JNative string

datatype error =
    TypeError
  | SyntaxError
  | NetworkError
  | ValidationError
  | RangeError
  | HttpError nat
  | LinkFetchFailed nat
  | ChunkFetchFailed nat

text \<open>Truthiness, as \<open>if (v)\<close>, \<open>!v\<close>, \<open>a && b\<close> and \<open>a || b\<close> test it.\<close>

fun truthy :: "jsval \<Rightarrow> bool" where
  "truthy JUndefined = False"
| "truthy JNull = False"
| "truthy (JBool b) = b"
| "truthy (JNum n) = (n \<noteq> 0)"
| "truthy (JStr s) = (s \<noteq> [])"
| "truthy (JArr xs) = True"
| "truthy (JObj kvs) = True"
| "truthy (JNative f) = True"

text \<open>Decimal notation of a number, as \<open>String(n)\<close> and a template literal give it.\<close>

fun show_nat :: "nat \<Rightarrow> string" where
  "show_nat n =
     (if n < 10 then [''0123456789'' ! n]
      else show_nat (n div 10) @ [''0123456789'' ! (n mod 10)])"

definition show_int :: "int \<Rightarrow> string" where
  "show_int i = (if i < 0 then CHR ''-'' # show_nat (nat (- i)) else show_nat (nat i))"

text \<open>
  \<open>String(v)\<close>, the conversion a template literal applies to each of its holes. An array
  joins its elements with commas, \<open>null\<close> and \<open>undefined\<close> elements giving the empty
  string.
\<close>

fun to_string :: "jsval \<Rightarrow> string"
  and join_elems :: "jsval list \<Rightarrow> string"
  and elem_string :: "jsval \<Rightarrow> string" where
  "to_string JUndefined = ''undefined''"
| "to_string JNull = ''null''"
| "to_string (JBool b) = (if b then ''true'' else ''false'')"
| "to_string (JNum n) = show_int n"
| "to_string (JStr s) = s"
| "to_string (JArr xs) = join_elems xs"
| "to_string (JObj kvs) = ''[object Object]''"
| "to_string (JNative f) = ''function '' @ f @ ''() { [native code] }''"
| "join_elems [] = []"
| "join_elems [x] = elem_string x"
| "join_elems (x # y # ys) = elem_string x @ '','' @ join_elems (y # ys)"
| "elem_string JUndefined = []"
| "elem_string JNull = []"
| "elem_string (JBool b) = to_string (JBool b)"
| "elem_string (JNum n) = to_string (JNum n)"
| "elem_string (JStr s) = to_string (JStr s)"
| "elem_string (JArr xs) = to_string (JArr xs)"
| "elem_string (JObj kvs) = to_string (JObj kvs)"
| "elem_string (JNative f) = to_string (JNative f)"

text \<open>
  A property read \<open>v.k\<close>, for the property names the client reads (\<open>link\<close>,
  \<open>chunk_info\<close>, \<open>data\<close>, \<open>num_chunks\<close>, \<open>rows\<close>, \<open>chunk_file_names\<close>,
  \<open>chunk_file_name\<close>, \<open>base_download_url\<close>, \<open>total_chunks\<close>, \<open>length\<close>,
  \<open>ssoCookieValue\<close>, \<open>authcode\<close>): on \<open>null\<close> and \<open>undefined\<close> it throws a
  TypeError; an object gives its own property or \<open>undefined\<close>; an array and a string
  have \<open>length\<close>, and a string finds \<open>link\<close> and \<open>replace\<close> on its prototype.
\<close>

fun js_get :: "jsval \<Rightarrow> string \<Rightarrow> error + jsval" where
  "js_get JUndefined k = Inl TypeError"
| "js_get JNull k = Inl TypeError"
| "js_get (JObj kvs) k = Inr (case map_of kvs k of None \<Rightarrow> JUndefined | Some v \<Rightarrow> v)"
| "js_get (JArr xs) k = Inr (if k = ''length'' then JNum (int (length xs)) else JUndefined)"
| "js_get (JStr s) k =
     Inr (if k = ''length'' then JNum (int (length s))
          else if k = ''link'' \<or> k = ''replace'' then JNative k
          else JUndefined)"
| "js_get (JBool b) k = Inr JUndefined"
| "js_get (JNum n) k = Inr JUndefined"
| "js_get (JNative f) k =
     Inr (if k = ''length'' then JNum (if f = ''replace'' then 2 else 1) else JUndefined)"

text \<open>
  The same read where the code has already tested the receiver truthy (\<open>a && a.k\<close>), so
  that it cannot throw.
\<close>

definition get_prop :: "jsval \<Rightarrow> string \<Rightarrow> jsval" where
  "get_prop v k = (case js_get v k of Inl e \<Rightarrow> JUndefined | Inr x \<Rightarrow> x)"

text \<open>
  The values \<open>for (const x of v)\<close> and the spread \<open>push(...v)\<close> run through: the
  elements of an array, the characters of a string; anything else of a JSON document is
  not iterable (TypeError).
\<close>

fun iterate :: "jsval \<Rightarrow> jsval list option" where
  "iterate (JArr xs) = Some xs"
| "iterate (JStr s) = Some (map (\<lambda>c. JStr [c]) s)"
| "iterate v = None"

text \<open>The own enumerable properties an object spread \<open>{...v}\<close> copies, in order.\<close>

fun own_props :: "jsval \<Rightarrow> (string \<times> jsval) list" where
  "own_props (JObj kvs) = kvs"
| "own_props (JArr xs) = zip (map show_nat [0..<length xs]) xs"
| "own_props (JStr s) = zip (map show_nat [0..<length s]) (map (\<lambda>c. JStr [c]) s)"
| "own_props v = []"

text \<open>
  \<open>Number(v)\<close>, the conversion \<open>a < b\<close>, \<open>a > b\<close> and \<open>a <= b\<close> apply to an operand
  that is not a number; \<open>None\<close> is NaN, and every comparison with NaN is false. How a
  string reads as a number is the platform's (\<open>str_num\<close>); a string may read as a
  fraction.
\<close>

fun to_number :: "(string \<Rightarrow> rat option) \<Rightarrow> jsval \<Rightarrow> rat option" where
  "to_number str_num JUndefined = None"
| "to_number str_num JNull = Some 0"
| "to_number str_num (JBool b) = Some (if b then 1 else 0)"
| "to_number str_num (JNum n) = Some (of_int n)"
| "to_number str_num (JStr s) = str_num s"
| "to_number str_num (JArr xs) = str_num (to_string (JArr xs))"
| "to_number str_num (JObj kvs) = None"
| "to_number str_num (JNative f) = None"

definition js_lt :: "(string \<Rightarrow> rat option) \<Rightarrow> jsval \<Rightarrow> jsval \<Rightarrow> bool" where
  "js_lt str_num a b =
     (case (to_number str_num a, to_number str_num b) of
        (Some x, Some y) \<Rightarrow> x < y
      | _ \<Rightarrow> False)"

text \<open>\<open>s.includes(t)\<close>: \<open>t\<close> occurs in \<open>s\<close>.\<close>

fun starts_with :: "string \<Rightarrow> string \<Rightarrow> bool" where
  "starts_with s [] = True"
| "starts_with [] (c # t) = False"
| "starts_with (d # s) (c # t) = (d = c \<and> starts_with s t)"

fun str_includes :: "string \<Rightarrow> string \<Rightarrow> bool" where
  "str_includes [] t = (t = [])"
| "str_includes (c # s) t = (starts_with (c # s) t \<or> str_includes s t)"

text \<open>
  \<open>s.replace(/\.\w+$/, '')\<close>: the leftmost dot that is followed, up to the end of the
  string, by one or more word characters (letters, digits, underscore) is removed
  together with what follows it.
\<close>

definition is_word_char :: "char \<Rightarrow> bool" where
  "is_word_char c =
     (let n = (of_char c :: nat)
      in (48 \<le> n \<and> n \<le> 57) \<or> (65 \<le> n \<and> n \<le> 90) \<or> n = 95 \<or> (97 \<le> n \<and> n \<le> 122))"

fun strip_extension :: "string \<Rightarrow> string" where
  "strip_extension [] = []"
| "strip_extension (c # cs) =
     (if c = CHR ''.'' \<and> cs \<noteq> [] \<and> list_all is_word_char cs then []
      else c # strip_extension cs)"

section \<open>The transport and the client\<close>

text \<open>
  What the injected \<open>fetch\<close> resolves to: \<open>ok\<close> and \<open>status\<close>, \<open>headers.get\<close> (a
  header's value, or \<open>null\<close>), the body as \<open>text()\<close> gives it, and as \<open>json()\<close> decodes
  it (\<open>None\<close> when the body is not JSON, where \<open>json()\<close> rejects with a SyntaxError).
\<close>

record http_response =
  ok :: bool
  status :: nat
  headers_get :: "string \<Rightarrow> string option"
  text_body :: string
  json_body :: "jsval option"

datatype fetch_result = Rejected | Resolved http_response

text \<open>
  The second argument of \<open>fetch\<close>; \<open>body\<close> is the value handed to \<open>JSON.stringify\<close>.
\<close>

record request_init =
  init_method :: "string option"
  init_headers :: "(string \<times> string) list"
  init_body :: "jsval option"
  init_credentials :: "string option"

text \<open>
  What a call does besides returning: the requests it sends, in order, the timers it
  waits for (\<open>setTimeout\<close>, in milliseconds) and the warnings it writes
  (\<open>console.warn\<close>). What \<open>console.log\<close> prints is left out; the one \<open>console.log\<close>
  whose argument can throw is part of \<open>request\<close>.
\<close>

datatype event =
    Fetched jsval "request_init option"
  | Slept rat
  | Warned

text \<open>
  The client instance. \<open>fetchImpl\<close> is the injected transport, a function of the
  arguments of the call (the cookie jar is the transport's).
\<close>

record iRacingSDK =
  baseUrl :: string
  fetchImpl :: "jsval \<Rightarrow> request_init option \<Rightarrow> fetch_result"
  ssoCookieValue :: jsval
  authcode :: jsval
  autoHandleChunkedResponses :: bool

text \<open>
  What the client takes from the platform and from its libraries, none of it code of the
  repository: \<open>Date.now()\<close>; \<open>Number\<close> on a string, the rational number it reads as
  (\<open>None\<close> is NaN; a string that reads as an infinity has no value here, and arithmetic
  on numbers is exact); \<open>URLSearchParams.toString\<close>; the \<open>email()\<close> check of the validation schema; SHA-256,
  the UTF-8 encoder and base64 on bytes; and which of the three crypto interfaces the
  environment has.
\<close>

datatype crypto_api = WindowCrypto | GlobalCrypto | NodeCrypto

record platform =
  clock :: int
  str_num :: "string \<Rightarrow> rat option"
  search_params :: "(string \<times> string) list \<Rightarrow> string"
  is_email :: "string \<Rightarrow> bool"
  sha256 :: "string \<Rightarrow> string"
  utf8 :: "string \<Rightarrow> string"
  base64 :: "string \<Rightarrow> string"
  crypto :: crypto_api

type_synonym 'a outcome = "(error + 'a) \<times> event list"

section \<open>Resolving chunked responses\<close>

text \<open>
  One chunk file: fetch it, fail on a status that is not a success, decode the body and
  spread it (\<open>chunks.push(...chunkData)\<close>). The result is the records of the chunk.
\<close>

definition fetch_chunk :: "iRacingSDK \<Rightarrow> string \<Rightarrow> error + jsval list" where
  "fetch_chunk sdk chunkUrl =
     (case fetchImpl sdk (JStr chunkUrl) None of
        Rejected \<Rightarrow> Inl NetworkError
      | Resolved chunkResponse \<Rightarrow>
          if \<not> ok chunkResponse then Inl (ChunkFetchFailed (status chunkResponse))
          else (case json_body chunkResponse of
                  None \<Rightarrow> Inl SyntaxError
                | Some chunkData \<Rightarrow>
                    (case iterate chunkData of
                       None \<Rightarrow> Inl TypeError
                     | Some records \<Rightarrow> Inr records)))"

text \<open>
  The loop over \<open>chunk_file_names\<close>, of the nested and of the legacy strategy alike: each
  file in list order, from \<open>base_download_url\<close> followed by the name; the first failure
  ends the call; 100 ms are waited after every chunk.
\<close>

fun fetch_named_chunks ::
  "iRacingSDK \<Rightarrow> jsval \<Rightarrow> jsval list \<Rightarrow> jsval list \<Rightarrow> (jsval list) outcome" where
  "fetch_named_chunks sdk base [] chunks = (Inr chunks, [])"
| "fetch_named_chunks sdk base (chunkFileName # names) chunks =
     (let chunkUrl = to_string base @ to_string chunkFileName
      in case fetch_chunk sdk chunkUrl of
           Inl e \<Rightarrow> (Inl e, [Fetched (JStr chunkUrl) None])
         | Inr records \<Rightarrow>
             (case fetch_named_chunks sdk base names (chunks @ records) of
                (r, evs) \<Rightarrow> (r, Fetched (JStr chunkUrl) None # Slept 100 # evs)))"

text \<open>
  The fallback loop \<open>for (let i = 0; i < total_chunks; i++)\<close>. The file name is built
  before the \<open>try\<close>: \<open>chunk_file_name.replace\<close> throws unless \<open>chunk_file_name\<close> is a
  string. Inside the \<open>try\<close> every failure is warned about and the loop goes on.
\<close>

definition base_name :: "jsval \<Rightarrow> error + string" where
  "base_name v = (case v of JStr s \<Rightarrow> Inr (strip_extension s) | _ \<Rightarrow> Inl TypeError)"

function fetch_indexed_chunks ::
  "platform \<Rightarrow> iRacingSDK \<Rightarrow> jsval \<Rightarrow> nat \<Rightarrow> jsval list \<Rightarrow> (jsval list) outcome" where
  "fetch_indexed_chunks pf sdk chunkInfo i chunks =
     (if js_lt (str_num pf) (JNum (int i)) (get_prop chunkInfo ''total_chunks'') then
        (case base_name (get_prop chunkInfo ''chunk_file_name'') of
           Inl e \<Rightarrow> (Inl e, [])
         | Inr stem \<Rightarrow>
             (let chunkFileName = stem @ ''_'' @ show_nat i @ ''.json'';
                  chunkUrl = to_string (get_prop chunkInfo ''base_download_url'') @ chunkFileName
              in case fetch_chunk sdk chunkUrl of
                   Inl e \<Rightarrow>
                     (case fetch_indexed_chunks pf sdk chunkInfo (Suc i) chunks of
                        (r, evs) \<Rightarrow> (r, Fetched (JStr chunkUrl) None # Warned # evs))
                 | Inr records \<Rightarrow>
                     (case fetch_indexed_chunks pf sdk chunkInfo (Suc i) (chunks @ records) of
                        (r, evs) \<Rightarrow> (r, Fetched (JStr chunkUrl) None # Slept 100 # evs))))
      else (Inr chunks, []))"
  by pat_completeness auto

termination
proof (relation "measure (\<lambda>(pf, sdk, chunkInfo, i, chunks).
    case to_number (str_num pf) (get_prop chunkInfo ''total_chunks'') of
      None \<Rightarrow> 0
    | Some n \<Rightarrow> nat \<lceil>n\<rceil> - i)")
  show "wf (measure (\<lambda>(pf, sdk, chunkInfo, i, chunks).
    case to_number (str_num pf) (get_prop chunkInfo ''total_chunks'') of
      None \<Rightarrow> 0
    | Some n \<Rightarrow> nat \<lceil>n\<rceil> - i))"
    by simp
next
  fix pf :: platform and sdk :: iRacingSDK and chunkInfo :: jsval and i :: nat
    and chunks :: "jsval list" and x :: error
  assume "js_lt (str_num pf) (JNum (int i)) (get_prop chunkInfo ''total_chunks'')"
  then obtain n where n: "to_number (str_num pf) (get_prop chunkInfo ''total_chunks'') = Some n"
    and "of_int (int i) < n"
    by (auto simp: js_lt_def split: option.splits)
  then have "int i < \<lceil>n\<rceil>"
    by (simp add: less_ceiling_iff)
  then show "((pf, sdk, chunkInfo, Suc i, chunks), (pf, sdk, chunkInfo, i, chunks))
      \<in> measure (\<lambda>(pf, sdk, chunkInfo, i, chunks).
          case to_number (str_num pf) (get_prop chunkInfo ''total_chunks'') of
            None \<Rightarrow> 0
          | Some n \<Rightarrow> nat \<lceil>n\<rceil> - i)"
    using n by simp
next
  fix pf :: platform and sdk :: iRacingSDK and chunkInfo :: jsval and i :: nat
    and chunks :: "jsval list" and x :: "jsval list"
  assume "js_lt (str_num pf) (JNum (int i)) (get_prop chunkInfo ''total_chunks'')"
  then obtain n where n: "to_number (str_num pf) (get_prop chunkInfo ''total_chunks'') = Some n"
    and "of_int (int i) < n"
    by (auto simp: js_lt_def split: option.splits)
  then have "int i < \<lceil>n\<rceil>"
    by (simp add: less_ceiling_iff)
  then show "((pf, sdk, chunkInfo, Suc i, chunks @ x), (pf, sdk, chunkInfo, i, chunks))
      \<in> measure (\<lambda>(pf, sdk, chunkInfo, i, chunks).
          case to_number (str_num pf) (get_prop chunkInfo ''total_chunks'') of
            None \<Rightarrow> 0
          | Some n \<Rightarrow> nat \<lceil>n\<rceil> - i)"
    using n by simp
qed

text \<open>
  Strategy 1, a \<open>link\<close> and no \<open>chunk_info\<close>: the link is fetched as it is; a CSV
  content type gives the text of the body, anything else the decoded JSON.
\<close>

definition fetch_link :: "iRacingSDK \<Rightarrow> jsval \<Rightarrow> jsval outcome" where
  "fetch_link sdk link =
     (case fetchImpl sdk link None of
        Rejected \<Rightarrow> (Inl NetworkError, [Fetched link None])
      | Resolved linkResponse \<Rightarrow>
          if \<not> ok linkResponse then
            (Inl (LinkFetchFailed (status linkResponse)), [Fetched link None])
          else
            (case headers_get linkResponse ''content-type'' of
               Some contentType \<Rightarrow>
                 if contentType \<noteq> [] \<and> str_includes contentType ''text/csv'' then
                   (Inr (JStr (text_body linkResponse)), [Fetched link None])
                 else
                   (case json_body linkResponse of
                      None \<Rightarrow> (Inl SyntaxError, [Fetched link None])
                    | Some linkData \<Rightarrow> (Inr linkData, [Fetched link None]))
             | None \<Rightarrow>
                 (case json_body linkResponse of
                    None \<Rightarrow> (Inl SyntaxError, [Fetched link None])
                  | Some linkData \<Rightarrow> (Inr linkData, [Fetched link None]))))"

text \<open>
  The object literal \<open>{...v, data: chunks, chunk_info: chunkInfo}\<close>: the properties of
  \<open>v\<close>, then \<open>data\<close> and \<open>chunk_info\<close>, each replacing the property of that name where
  \<open>v\<close> has one and added at the end otherwise.
\<close>

definition with_chunks :: "jsval \<Rightarrow> jsval list \<Rightarrow> jsval \<Rightarrow> jsval" where
  "with_chunks v chunks chunkInfo =
     JObj (AList.update ''chunk_info'' chunkInfo
            (AList.update ''data'' (JArr chunks) (own_props v)))"

text \<open>\<open>names && names.length > 0\<close>\<close>

definition non_empty_list :: "platform \<Rightarrow> jsval \<Rightarrow> bool" where
  "non_empty_list pf names =
     (truthy names \<and> js_lt (str_num pf) (JNum 0) (get_prop names ''length''))"

text \<open>Strategy 2, \<open>chunk_info\<close> under \<open>data\<close>; \<open>nestedData\<close> is \<open>response.data\<close>.\<close>

definition resolve_nested :: "platform \<Rightarrow> iRacingSDK \<Rightarrow> jsval \<Rightarrow> jsval outcome" where
  "resolve_nested pf sdk nestedData =
     (let chunk_info = get_prop nestedData ''chunk_info''
      in if get_prop chunk_info ''num_chunks'' = JNum 0 \<or> get_prop chunk_info ''rows'' = JNum 0 then
           (Inr nestedData, [])
         else if non_empty_list pf (get_prop chunk_info ''chunk_file_names'') then
           (case iterate (get_prop chunk_info ''chunk_file_names'') of
              None \<Rightarrow> (Inl TypeError, [])
            | Some names \<Rightarrow>
                (case fetch_named_chunks sdk (get_prop chunk_info ''base_download_url'') names [] of
                   (Inl e, evs) \<Rightarrow> (Inl e, evs)
                 | (Inr chunks, evs) \<Rightarrow> (Inr (with_chunks nestedData chunks chunk_info), evs)))
         else (Inr nestedData, []))"

text \<open>Strategy 3, \<open>chunk_info\<close> at top level.\<close>

definition resolve_legacy :: "platform \<Rightarrow> iRacingSDK \<Rightarrow> jsval \<Rightarrow> jsval outcome" where
  "resolve_legacy pf sdk response =
     (let chunkInfo = get_prop response ''chunk_info'';
          fetched =
            (if truthy (get_prop chunkInfo ''chunk_file_name'')
                \<and> get_prop chunkInfo ''total_chunks'' = JNum 1 then
               (let chunkUrl = to_string (get_prop chunkInfo ''base_download_url'')
                               @ to_string (get_prop chunkInfo ''chunk_file_name'')
                in (fetch_chunk sdk chunkUrl, [Fetched (JStr chunkUrl) None]))
             else if non_empty_list pf (get_prop chunkInfo ''chunk_file_names'') then
               (case iterate (get_prop chunkInfo ''chunk_file_names'') of
                  None \<Rightarrow> (Inl TypeError, [])
                | Some names \<Rightarrow>
                    fetch_named_chunks sdk (get_prop chunkInfo ''base_download_url'') names [])
             else fetch_indexed_chunks pf sdk chunkInfo 0 [])
      in case fetched of
           (Inl e, evs) \<Rightarrow> (Inl e, evs)
         | (Inr chunks, evs) \<Rightarrow> (Inr (with_chunks response chunks chunkInfo), evs))"

text \<open>\<open>handleChunkedResponse\<close>: the strategies in order, the first that applies.\<close>

definition handleChunkedResponse :: "platform \<Rightarrow> iRacingSDK \<Rightarrow> jsval \<Rightarrow> jsval outcome" where
  "handleChunkedResponse pf sdk response =
     (case js_get response ''link'' of
        Inl e \<Rightarrow> (Inl e, [])
      | Inr link \<Rightarrow>
          if truthy link \<and> \<not> truthy (get_prop response ''chunk_info'') then
            fetch_link sdk link
          else if truthy (get_prop response ''data'')
                  \<and> truthy (get_prop (get_prop response ''data'') ''chunk_info'') then
            resolve_nested pf sdk (get_prop response ''data'')
          else if \<not> truthy (get_prop response ''chunk_info'') then
            (Inr response, [])
          else resolve_legacy pf sdk response)"

section \<open>Requests\<close>

text \<open>
  The log line of \<open>request\<close> that comes before the rate limiter:
  \<open>if (limit || remaining || reset) console.log(..., { ..., resetDate: reset ?
  new Date(Number(reset) * 1000).toISOString() : undefined })\<close>. \<open>toISOString\<close> throws a
  RangeError on a date that is not valid: one made from NaN or from more than
  8.64e15 milliseconds either side of the epoch. \<open>None\<close> is a line that does not throw.
\<close>

definition header_truthy :: "string option \<Rightarrow> bool" where
  "header_truthy h = (case h of None \<Rightarrow> False | Some v \<Rightarrow> v \<noteq> [])"

definition valid_date :: "rat option \<Rightarrow> bool" where
  "valid_date ms = (case ms of None \<Rightarrow> False | Some t \<Rightarrow> \<bar>t\<bar> \<le> 8640000000000000)"

definition log_rate_limit :: "platform \<Rightarrow> http_response \<Rightarrow> error option" where
  "log_rate_limit pf res =
     (let limit = headers_get res ''x-ratelimit-limit'';
          remaining = headers_get res ''x-ratelimit-remaining'';
          reset = headers_get res ''x-ratelimit-reset''
      in if header_truthy limit \<or> header_truthy remaining \<or> header_truthy reset then
           (case reset of
              None \<Rightarrow> None
            | Some v \<Rightarrow>
                if v \<noteq> [] then
                  (if valid_date (map_option (\<lambda>r. r * 1000) (str_num pf v)) then None
                   else Some RangeError)
                else None)
         else None)"

text \<open>
  The rate limiter of \<open>request\<close>, run on every response before its status is looked at:
  \<open>remaining !== null && reset && Number(remaining) <= 1\<close>, then
  \<open>waitMs = Number(reset) * 1000 - Date.now()\<close> and, where \<open>waitMs > 0\<close>, a warning and
  a timer of \<open>waitMs\<close> milliseconds.
\<close>

definition rate_limit_wait :: "platform \<Rightarrow> http_response \<Rightarrow> rat option" where
  "rate_limit_wait pf res =
     (case headers_get res ''x-ratelimit-remaining'' of
        None \<Rightarrow> None
      | Some remaining \<Rightarrow>
          (case headers_get res ''x-ratelimit-reset'' of
             None \<Rightarrow> None
           | Some reset \<Rightarrow>
               if reset \<noteq> [] \<and> (case str_num pf remaining of None \<Rightarrow> False | Some n \<Rightarrow> n \<le> 1) then
                 (case str_num pf reset of
                    None \<Rightarrow> None
                  | Some r \<Rightarrow>
                      (let now = of_int (clock pf); resetMs = r * 1000; waitMs = resetMs - now
                       in if waitMs > 0 then Some waitMs else None))
               else None))"

text \<open>
  The two together, as \<open>request\<close> runs them on a response: the log line, which may throw,
  and then the limiter with its warning and its timer.
\<close>

definition rate_limit :: "platform \<Rightarrow> http_response \<Rightarrow> error + event list" where
  "rate_limit pf res =
     (case log_rate_limit pf res of
        Some e \<Rightarrow> Inl e
      | None \<Rightarrow>
          Inr (case rate_limit_wait pf res of
                 None \<Rightarrow> []
               | Some waitMs \<Rightarrow> [Warned, Slept waitMs]))"

text \<open>
  \<open>request\<close>. The query is the optional record of parameters, a parameter that is
  \<open>undefined\<close> being left out; the caller's headers go over the two default ones.
\<close>

definition build_url ::
  "platform \<Rightarrow> iRacingSDK \<Rightarrow> string \<Rightarrow> (string \<times> jsval) list option \<Rightarrow> string" where
  "build_url pf sdk path query =
     (case query of
        None \<Rightarrow> baseUrl sdk @ path
      | Some entries \<Rightarrow>
          if entries \<noteq> [] then
            baseUrl sdk @ path @ ''?'' @
              search_params pf
                (map (\<lambda>(key, value). (key, to_string value))
                   (filter (\<lambda>(key, value). value \<noteq> JUndefined) entries))
          else baseUrl sdk @ path)"

definition default_headers :: "(string \<times> string) list" where
  "default_headers =
     [(''Content-Type'', ''application/json''),
      (''User-Agent'',
       ''Mozilla/5.0 (Windows NT 10.0; Win64; x64) AppleWebKit/537.36 (KHTML, like Gecko) Chrome/125.0.0.0 Safari/537.36'')]"

definition merge_headers :: "(string \<times> string) list \<Rightarrow> (string \<times> string) list" where
  "merge_headers hs = fold (\<lambda>(key, value) acc. AList.update key value acc) hs default_headers"

definition request ::
  "platform \<Rightarrow> iRacingSDK \<Rightarrow> string \<Rightarrow> request_init \<Rightarrow> (string \<times> jsval) list option
     \<Rightarrow> jsval outcome" where
  "request pf sdk path options query =
     (let url = JStr (build_url pf sdk path query);
          init = Some (options\<lparr>init_headers := merge_headers (init_headers options),
                                init_credentials := Some ''include''\<rparr>)
      in case fetchImpl sdk url init of
           Rejected \<Rightarrow> (Inl NetworkError, [Fetched url init])
         | Resolved res \<Rightarrow>
             (case rate_limit pf res of
                Inl e \<Rightarrow> (Inl e, [Fetched url init])
              | Inr waited \<Rightarrow>
                  (if \<not> ok res then Inl (HttpError (status res))
                   else (case json_body res of
                           None \<Rightarrow> Inl SyntaxError
                         | Some body \<Rightarrow> Inr body),
                   Fetched url init # waited)))"

text \<open>
  \<open>requestWithChunking\<close>: \<open>handleChunks\<close> is the optional per-call override of the
  client's flag.
\<close>

definition requestWithChunking ::
  "platform \<Rightarrow> iRacingSDK \<Rightarrow> string \<Rightarrow> request_init \<Rightarrow> (string \<times> jsval) list option
     \<Rightarrow> bool option \<Rightarrow> jsval outcome" where
  "requestWithChunking pf sdk path options query handleChunks =
     (case request pf sdk path options query of
        (Inl e, evs) \<Rightarrow> (Inl e, evs)
      | (Inr response, evs) \<Rightarrow>
          (let shouldHandleChunks =
                 (case handleChunks of Some b \<Rightarrow> b | None \<Rightarrow> autoHandleChunkedResponses sdk)
           in if shouldHandleChunks then
                (case js_get response ''chunk_info'' of
                   Inl e \<Rightarrow> (Inl e, evs)
                 | Inr chunk_info \<Rightarrow>
                     if truthy chunk_info \<or> truthy (get_prop response ''link'') then
                       (case handleChunkedResponse pf sdk response of
                          (r, evs') \<Rightarrow> (r, evs @ evs'))
                     else (Inr response, evs))
              else (Inr response, evs)))"

section \<open>Authentication\<close>









section \<open>Notions of the specification\<close>

text \<open>The value carries a field: it is an object with an own property of that name.\<close>

definition has_field :: "jsval \<Rightarrow> string \<Rightarrow> bool" where
  "has_field v k = (case v of JObj kvs \<Rightarrow> k \<in> set (map fst kvs) | _ \<Rightarrow> False)"

text \<open>
  A decoded body other than \<open>null\<close> and a string: an object, an array, a number or a
  boolean.
\<close>

definition plain_body :: "jsval \<Rightarrow> bool" where
  "plain_body v =
     (case v of
        JObj kvs \<Rightarrow> True
      | JArr xs \<Rightarrow> True
      | JNum n \<Rightarrow> True
      | JBool b \<Rightarrow> True
      | _ \<Rightarrow> False)"

text \<open>
  Which strategy a response falls to, by the tests of \<open>handleChunkedResponse\<close> in their
  order: a link and no \<open>chunk_info\<close>; else a \<open>chunk_info\<close> under \<open>data\<close>; else a
  \<open>chunk_info\<close> at top level.
\<close>

definition direct_link :: "jsval \<Rightarrow> bool" where
  "direct_link r = (truthy (get_prop r ''link'') \<and> \<not> truthy (get_prop r ''chunk_info''))"

definition nested_chunked :: "jsval \<Rightarrow> bool" where
  "nested_chunked r =
     (\<not> direct_link r \<and> truthy (get_prop r ''data'')
      \<and> truthy (get_prop (get_prop r ''data'') ''chunk_info''))"

definition legacy_chunked :: "jsval \<Rightarrow> bool" where
  "legacy_chunked r =
     (\<not> direct_link r \<and> \<not> nested_chunked r \<and> truthy (get_prop r ''chunk_info''))"


text \<open>
  The object whose \<open>chunk_info\<close> is resolved and whose copy is returned: the \<open>data\<close>
  sub-object in the nested strategy, the response itself otherwise.
\<close>

definition chunk_source :: "jsval \<Rightarrow> jsval" where
  "chunk_source r = (if nested_chunked r then get_prop r ''data'' else r)"








section \<open>Example data\<close>

text \<open>
  A platform, a chunk host and responses in the shapes of the test suite, for evaluating
  the client on concrete inputs.
\<close>

fun digit_value :: "char \<Rightarrow> nat option" where
  "digit_value c =
     map_of (zip ''0123456789'' [0, 1, 2, 3, 4, 5, 6, 7, 8, 9]) c"

fun decimal :: "nat \<Rightarrow> string \<Rightarrow> int option" where
  "decimal acc [] = Some (int acc)"
| "decimal acc (c # s) =
     (case digit_value c of None \<Rightarrow> None | Some d \<Rightarrow> decimal (10 * acc + d) s)"

text \<open>A decimal numeral, with or without a fraction after a point.\<close>

definition example_number :: "string \<Rightarrow> rat option" where
  "example_number s =
     (let whole = takeWhile (\<lambda>c. c \<noteq> CHR ''.'') s;
          part = drop 1 (dropWhile (\<lambda>c. c \<noteq> CHR ''.'') s)
      in case (decimal 0 whole, decimal 0 part) of
           (Some a, Some b) \<Rightarrow> Some (of_int a + of_int b / 10 ^ length part)
         | _ \<Rightarrow> None)"

definition example_platform :: platform where
  "example_platform =
     \<lparr>clock = 1700000000000,
      str_num = example_number,
      search_params = (\<lambda>ps. concat (map (\<lambda>(k, v). k @ ''='' @ v @ ''&'') ps)),
      is_email = (\<lambda>s. CHR ''@'' \<in> set s),
      sha256 = rev,
      utf8 = (\<lambda>s. s),
      base64 = (\<lambda>s. s),
      crypto = NodeCrypto\<rparr>"

definition json_response :: "jsval \<Rightarrow> http_response" where
  "json_response body =
     \<lparr>ok = True, status = 200,
      headers_get = (\<lambda>h. if h = ''content-type'' then Some ''application/json'' else None),
      text_body = [], json_body = Some body\<rparr>"

definition csv_response :: "string \<Rightarrow> http_response" where
  "csv_response body =
     \<lparr>ok = True, status = 200,
      headers_get = (\<lambda>h. if h = ''content-type'' then Some ''text/csv; charset=utf-8'' else None),
      text_body = body, json_body = None\<rparr>"

definition not_found :: http_response where
  "not_found =
     \<lparr>ok = False, status = 404, headers_get = (\<lambda>h. None), text_body = [], json_body = None\<rparr>"

definition record_no :: "int \<Rightarrow> jsval" where
  "record_no i = JObj [(''subsession_id'', JNum i)]"

text \<open>
  The chunk host: \<open>a.json\<close>, \<open>b.json\<close>, \<open>c.json\<close>, the indexed files \<open>results_0.json\<close>
  and \<open>results_2.json\<close> (there is no \<open>results_1.json\<close>), a CSV file and a JSON document.
\<close>

definition chunk_host :: "(string \<times> http_response) list" where
  "chunk_host =
     [(''https://example.com/a.json'', json_response (JArr [record_no 1, record_no 2])),
      (''https://example.com/b.json'', json_response (JArr [record_no 3])),
      (''https://example.com/c.json'', json_response (JArr [record_no 2, record_no 1])),
      (''https://example.com/results_0.json'', json_response (JArr [record_no 1, record_no 2])),
      (''https://example.com/results_2.json'', json_response (JArr [record_no 5])),
      (''https://example.com/stats.csv'', csv_response ''cust_id,wins''),
      (''https://example.com/member.json'', json_response (JObj [(''cust_id'', JNum 7)]))]"

definition serve :: "(string \<times> http_response) list \<Rightarrow> jsval \<Rightarrow> request_init option \<Rightarrow> fetch_result" where
  "serve files url init =
     (case url of
        JStr u \<Rightarrow> (case map_of files u of None \<Rightarrow> Resolved not_found | Some res \<Rightarrow> Resolved res)
      | _ \<Rightarrow> Rejected)"

text \<open>A client whose transport answers the API path \<open>/data/test\<close> with the response given.\<close>

definition example_sdk :: "http_response \<Rightarrow> iRacingSDK" where
  "example_sdk res =
     \<lparr>baseUrl = ''https://members-ng.iracing.com'',
      fetchImpl = serve ((''https://members-ng.iracing.com/data/test'', res) # chunk_host),
      ssoCookieValue = JUndefined,
      authcode = JUndefined,
      autoHandleChunkedResponses = True\<rparr>"


definition no_options :: request_init where
  "no_options =
     \<lparr>init_method = None, init_headers = [], init_body = None, init_credentials = None\<rparr>"

definition plain_response :: jsval where
  "plain_response = JObj [(''success'', JBool True), (''data'', JArr [record_no 1])]"


definition nested_response :: "jsval \<Rightarrow> jsval" where
  "nested_response chunkInfo =
     JObj [(''type'', JStr ''search_series_results''),
           (''data'', JObj [(''success'', JBool True), (''chunk_info'', chunkInfo)])]"

definition legacy_response :: "jsval \<Rightarrow> jsval" where
  "legacy_response chunkInfo =
     JObj [(''success'', JBool True), (''data'', JArr []), (''chunk_info'', chunkInfo)]"

definition named_chunk_info :: jsval where
  "named_chunk_info =
     JObj [(''chunk_size'', JNum 2), (''num_chunks'', JNum 3), (''rows'', JNum 5),
           (''base_download_url'', JStr ''https://example.com/''),
           (''chunk_file_names'', JArr [JStr ''a.json'', JStr ''b.json'', JStr ''c.json''])]"



definition nameless_chunk_info :: jsval where
  "nameless_chunk_info =
     JObj [(''chunk_size'', JNum 2), (''total_chunks'', JNum 3), (''rows'', JNum 5),
           (''base_download_url'', JStr ''https://example.com/'')]"

text \<open>A response with the rate-limit headers given.\<close>

definition rate_limited_response :: "string \<Rightarrow> string \<Rightarrow> http_response" where
  "rate_limited_response remaining reset =
     \<lparr>ok = True, status = 200,
      headers_get =
        (\<lambda>h. if h = ''x-ratelimit-limit'' then Some ''240''
             else if h = ''x-ratelimit-remaining'' then Some remaining
             else if h = ''x-ratelimit-reset'' then Some reset
             else None),
      text_body = [], json_body = Some plain_response\<rparr>"


section \<open>Property reads\<close>

lemma js_get_get_prop:
  "v \<noteq> JUndefined \<Longrightarrow> v \<noteq> JNull \<Longrightarrow> js_get v k = Inr (get_prop v k)"
  by (cases v) (simp_all add: get_prop_def)

lemma truthy_get_prop_JObj:
  "truthy (get_prop v k) \<Longrightarrow> k \<noteq> ''link'' \<Longrightarrow> k \<noteq> ''replace'' \<Longrightarrow> k \<noteq> ''length''
     \<Longrightarrow> \<exists>kvs. v = JObj kvs"
  by (cases v) (simp_all add: get_prop_def)

lemma get_prop_absent:
  "\<not> has_field v k \<Longrightarrow> k \<noteq> ''link'' \<Longrightarrow> k \<noteq> ''replace'' \<Longrightarrow> k \<noteq> ''length''
     \<Longrightarrow> get_prop v k = JUndefined"
  by (cases v)
     (auto simp: get_prop_def has_field_def map_of_eq_None_iff[symmetric] split: option.splits)

lemma get_prop_absent_plain_body:
  "\<not> has_field v k \<Longrightarrow> plain_body v \<Longrightarrow> k \<noteq> ''length'' \<Longrightarrow> get_prop v k = JUndefined"
  by (cases v)
     (auto simp: get_prop_def has_field_def plain_body_def map_of_eq_None_iff[symmetric]
           split: option.splits)

text \<open>On a body that is not \<open>null\<close>, the resolver is its chain of tests.\<close>

lemma handle_unfold:
  "r \<noteq> JUndefined \<Longrightarrow> r \<noteq> JNull \<Longrightarrow>
   handleChunkedResponse pf sdk r =
     (if direct_link r then fetch_link sdk (get_prop r ''link'')
      else if nested_chunked r then resolve_nested pf sdk (get_prop r ''data'')
      else if legacy_chunked r then resolve_legacy pf sdk r
      else (Inr r, []))"
  by (auto simp: handleChunkedResponse_def js_get_get_prop direct_link_def nested_chunked_def
                 legacy_chunked_def)

section \<open>Pass-through\<close>

lemma plain_request:
  "request example_platform (example_sdk (json_response plain_response)) ''/data/test''
     no_options None
   = (Inr plain_response,
      [Fetched (JStr ''https://members-ng.iracing.com/data/test'')
         (Some (no_options\<lparr>init_headers := default_headers,
                            init_credentials := Some ''include''\<rparr>))])"
  by (simp add: request_def build_url_def example_sdk_def serve_def json_response_def
                rate_limit_def log_rate_limit_def header_truthy_def rate_limit_wait_def
                merge_headers_def no_options_def)

text \<open>
  C5, as the claim states it, fails on two decoded bodies that carry neither field. On
  \<open>null\<close> the first property read of the resolver throws a TypeError. On a string the
  read of \<open>link\<close> finds the method \<open>String.prototype.link\<close>, which is truthy, so the
  resolver takes the text for a link response and sends a request.
\<close>

theorem passthrough_fails_on_null_and_string:
  "\<not> has_field JNull ''link''
   \<and> \<not> has_field JNull ''chunk_info''
   \<and> \<not> has_field (get_prop JNull ''data'') ''chunk_info''
   \<and> handleChunkedResponse example_platform (example_sdk not_found) JNull = (Inl TypeError, [])
   \<and> \<not> has_field (JStr ''cust_id,wins'') ''link''
   \<and> \<not> has_field (JStr ''cust_id,wins'') ''chunk_info''
   \<and> \<not> has_field (get_prop (JStr ''cust_id,wins'') ''data'') ''chunk_info''
   \<and> snd (handleChunkedResponse example_platform (example_sdk not_found) (JStr ''cust_id,wins''))
       = [Fetched (JNative ''link'') None]
   \<and> handleChunkedResponse example_platform (example_sdk not_found) (JStr ''cust_id,wins'')
       \<noteq> (Inr (JStr ''cust_id,wins''), [])"
proof -
  have fields: "\<not> has_field JNull ''link''" "\<not> has_field JNull ''chunk_info''"
    "\<not> has_field (get_prop JNull ''data'') ''chunk_info''"
    "\<not> has_field (JStr ''cust_id,wins'') ''link''"
    "\<not> has_field (JStr ''cust_id,wins'') ''chunk_info''"
    "\<not> has_field (get_prop (JStr ''cust_id,wins'') ''data'') ''chunk_info''"
    by (simp_all add: has_field_def get_prop_def)
  have on_null: "handleChunkedResponse example_platform (example_sdk not_found) JNull
      = (Inl TypeError, [])"
    by (simp add: handleChunkedResponse_def)
  have "direct_link (JStr ''cust_id,wins'')"
    by (simp add: direct_link_def get_prop_def)
  then have "handleChunkedResponse example_platform (example_sdk not_found) (JStr ''cust_id,wins'')
      = fetch_link (example_sdk not_found) (JNative ''link'')"
    by (simp add: handle_unfold get_prop_def)
  then have on_string: "handleChunkedResponse example_platform (example_sdk not_found)
      (JStr ''cust_id,wins'') = (Inl NetworkError, [Fetched (JNative ''link'') None])"
    by (simp add: fetch_link_def example_sdk_def serve_def)
  from fields on_null on_string show ?thesis by simp
qed

text \<open>
  C5, amended. A decoded body other than \<open>null\<close> and a string (an object, an array, a
  number or a boolean) that carries neither a \<open>link\<close> nor a \<open>chunk_info\<close>, at top level
  or under \<open>data\<close>, is returned by the resolver as it is, with no request sent, no wait
  and no error; and \<open>requestWithChunking\<close> returns the body that \<open>request\<close> decoded,
  with the events of \<open>request\<close> alone. Resolving the result again therefore changes
  nothing.
\<close>

theorem passthrough_without_link_or_chunk_info:
  assumes "plain_body r"
    and "\<not> has_field r ''link''"
    and "\<not> has_field r ''chunk_info''"
    and "\<not> has_field (get_prop r ''data'') ''chunk_info''"
  shows "handleChunkedResponse pf sdk r = (Inr r, [])
     \<and> (request pf sdk path options query = (Inr r, evs)
          \<longrightarrow> requestWithChunking pf sdk path options query handleChunks = (Inr r, evs))"
proof -
  have link: "get_prop r ''link'' = JUndefined"
    using assms(1,2) by (simp add: get_prop_absent_plain_body)
  have info: "get_prop r ''chunk_info'' = JUndefined"
    using assms(1,3) by (simp add: get_prop_absent_plain_body)
  have nested: "get_prop (get_prop r ''data'') ''chunk_info'' = JUndefined"
    using assms(4) by (simp add: get_prop_absent)
  have proper: "r \<noteq> JUndefined" "r \<noteq> JNull"
    using assms(1) by (auto simp: plain_body_def)
  have resolver: "handleChunkedResponse pf sdk r = (Inr r, [])"
    using proper link info nested
    by (simp add: handle_unfold direct_link_def nested_chunked_def legacy_chunked_def)
  have executor: "requestWithChunking pf sdk path options query handleChunks = (Inr r, evs)"
    if "request pf sdk path options query = (Inr r, evs)"
    using that proper link info
    by (simp add: requestWithChunking_def js_get_get_prop)
  from resolver executor show ?thesis by blast
qed

theorem passthrough_without_link_or_chunk_info_witness:
  "plain_body plain_response
   \<and> \<not> has_field plain_response ''link''
   \<and> \<not> has_field plain_response ''chunk_info''
   \<and> \<not> has_field (get_prop plain_response ''data'') ''chunk_info''
   \<and> handleChunkedResponse example_platform (example_sdk (json_response plain_response))
        plain_response = (Inr plain_response, [])
   \<and> requestWithChunking example_platform (example_sdk (json_response plain_response))
        ''/data/test'' no_options None None
      = (Inr plain_response,
         [Fetched (JStr ''https://members-ng.iracing.com/data/test'')
            (Some (no_options\<lparr>init_headers := default_headers,
                               init_credentials := Some ''include''\<rparr>))])
   \<and> plain_body (JNum 7)
   \<and> handleChunkedResponse example_platform (example_sdk not_found) (JNum 7) = (Inr (JNum 7), [])"
proof -
  have h1: "plain_body plain_response"
    by (simp add: plain_body_def plain_response_def)
  have h2: "\<not> has_field plain_response ''link''"
    by (simp add: has_field_def plain_response_def)
  have h3: "\<not> has_field plain_response ''chunk_info''"
    by (simp add: has_field_def plain_response_def)
  have h4: "\<not> has_field (get_prop plain_response ''data'') ''chunk_info''"
    by (simp add: has_field_def get_prop_def plain_response_def)
  have n1: "plain_body (JNum 7)"
    by (simp add: plain_body_def)
  have n2: "\<not> has_field (JNum 7) ''link''" "\<not> has_field (JNum 7) ''chunk_info''"
    "\<not> has_field (get_prop (JNum 7) ''data'') ''chunk_info''"
    by (simp_all add: has_field_def get_prop_def)
  have object: "handleChunkedResponse example_platform (example_sdk (json_response plain_response))
        plain_response = (Inr plain_response, [])
      \<and> requestWithChunking example_platform (example_sdk (json_response plain_response))
        ''/data/test'' no_options None None
      = (Inr plain_response,
         [Fetched (JStr ''https://members-ng.iracing.com/data/test'')
            (Some (no_options\<lparr>init_headers := default_headers,
                               init_credentials := Some ''include''\<rparr>))])"
    using plain_request
      passthrough_without_link_or_chunk_info [OF h1 h2 h3 h4,
        of example_platform "example_sdk (json_response plain_response)" "''/data/test''"
           no_options None _ None]
    by blast
  have number: "handleChunkedResponse example_platform (example_sdk not_found) (JNum 7)
      = (Inr (JNum 7), [])"
    using passthrough_without_link_or_chunk_info [OF n1 n2, of example_platform
        "example_sdk not_found"]
    by blast
  from h1 h2 h3 h4 n1 object number show ?thesis by blast
qed




section \<open>The empty nested result\<close>



section \<open>The direct link\<close>



section \<open>The fallback without a base name\<close>

text \<open>
  C10. In the legacy strategy, where \<open>chunk_info\<close> has no \<open>chunk_file_name\<close>, no
  non-empty \<open>chunk_file_names\<close> and \<open>total_chunks\<close> of at least 1, the resolver throws a
  TypeError before any request is sent and before any warning: the base name is read
  outside the \<open>try\<close> of the loop.
\<close>

theorem fallback_without_base_name_throws:
  assumes "legacy_chunked r"
    and "\<not> has_field (get_prop r ''chunk_info'') ''chunk_file_name''"
    and "\<not> non_empty_list pf (get_prop (get_prop r ''chunk_info'') ''chunk_file_names'')"
    and "get_prop (get_prop r ''chunk_info'') ''total_chunks'' = JNum t"
    and "1 \<le> t"
  shows "handleChunkedResponse pf sdk r = (Inl TypeError, [])"
proof -
  let ?ci = "get_prop r ''chunk_info''"
  have name: "get_prop ?ci ''chunk_file_name'' = JUndefined"
    using assms(2) by (simp add: get_prop_absent)
  have "r \<noteq> JUndefined" "r \<noteq> JNull"
    using assms(1) by (auto simp: legacy_chunked_def get_prop_def)
  then have "handleChunkedResponse pf sdk r = resolve_legacy pf sdk r"
    using assms(1) by (simp add: handle_unfold legacy_chunked_def)
  moreover have "fetch_indexed_chunks pf sdk ?ci 0 [] = (Inl TypeError, [])"
    using assms(4,5) name
    by (subst fetch_indexed_chunks.simps) (simp add: js_lt_def base_name_def)
  ultimately show ?thesis
    using assms(3) name by (simp add: resolve_legacy_def)
qed

theorem fallback_without_base_name_throws_witness:
  "legacy_chunked (legacy_response nameless_chunk_info)
   \<and> \<not> has_field (get_prop (legacy_response nameless_chunk_info) ''chunk_info'') ''chunk_file_name''
   \<and> \<not> non_empty_list example_platform
         (get_prop (get_prop (legacy_response nameless_chunk_info) ''chunk_info'') ''chunk_file_names'')
   \<and> get_prop (get_prop (legacy_response nameless_chunk_info) ''chunk_info'') ''total_chunks'' = JNum 3
   \<and> handleChunkedResponse example_platform (example_sdk not_found)
        (legacy_response nameless_chunk_info) = (Inl TypeError, [])"
proof -
  let ?r = "legacy_response nameless_chunk_info"
  have ci: "get_prop ?r ''chunk_info'' = nameless_chunk_info"
    by (simp add: get_prop_def legacy_response_def)
  have h1: "legacy_chunked ?r"
    by (simp add: legacy_chunked_def nested_chunked_def direct_link_def get_prop_def
                  legacy_response_def nameless_chunk_info_def)
  have h2: "\<not> has_field (get_prop ?r ''chunk_info'') ''chunk_file_name''"
    by (simp add: ci) (simp add: has_field_def nameless_chunk_info_def)
  have h3: "\<not> non_empty_list example_platform (get_prop (get_prop ?r ''chunk_info'') ''chunk_file_names'')"
    by (simp add: ci) (simp add: non_empty_list_def get_prop_def nameless_chunk_info_def)
  have h4: "get_prop (get_prop ?r ''chunk_info'') ''total_chunks'' = JNum 3"
    by (simp add: ci) (simp add: get_prop_def nameless_chunk_info_def)
  have h5: "(1::int) \<le> 3" by simp
  show ?thesis
    using h1 h2 h3 h4
      fallback_without_base_name_throws [OF h1 h2 h3 h4 h5, of "example_sdk not_found"]
    by simp
qed

section \<open>The chunk loops\<close>







section \<open>The strategies on an object\<close>


lemma non_empty_list_JArr: "non_empty_list pf (JArr names) = (names \<noteq> [])"
  by (simp add: non_empty_list_def js_lt_def get_prop_def)


lemma nested_chunked_JObj:
  "nested_chunked r \<Longrightarrow> (\<exists>kvs. r = JObj kvs) \<and> (\<exists>nd. get_prop r ''data'' = JObj nd)"
  unfolding nested_chunked_def
  using truthy_get_prop_JObj[of r "''data''"] truthy_get_prop_JObj[of "get_prop r ''data''" "''chunk_info''"]
  by simp


lemma handle_nested:
  "nested_chunked r \<Longrightarrow> handleChunkedResponse pf sdk r = resolve_nested pf sdk (get_prop r ''data'')"
  using nested_chunked_JObj[of r] by (auto simp: handle_unfold nested_chunked_def)

lemma get_prop_JObj:
  "get_prop (JObj kvs) k = (case map_of kvs k of None \<Rightarrow> JUndefined | Some v \<Rightarrow> v)"
  by (simp add: get_prop_def)

section \<open>The example data\<close>


lemma named_chunk_info_props:
  "get_prop named_chunk_info ''chunk_file_names'' = JArr [JStr ''a.json'', JStr ''b.json'', JStr ''c.json'']"
  "get_prop named_chunk_info ''base_download_url'' = JStr ''https://example.com/''"
  "get_prop named_chunk_info ''num_chunks'' = JNum 3"
  "get_prop named_chunk_info ''rows'' = JNum 5"
  "get_prop named_chunk_info ''chunk_file_name'' = JUndefined"
  "get_prop named_chunk_info ''total_chunks'' = JUndefined"
  "truthy named_chunk_info"
  by (simp_all add: get_prop_def named_chunk_info_def)


lemma nested_response_props:
  "get_prop (nested_response ci) ''chunk_info'' = JUndefined"
  "get_prop (nested_response ci) ''link'' = JUndefined"
  "get_prop (nested_response ci) ''data'' = JObj [(''success'', JBool True), (''chunk_info'', ci)]"
  "get_prop (get_prop (nested_response ci) ''data'') ''chunk_info'' = ci"
  by (simp_all add: get_prop_def nested_response_def)


lemma nested_response_strategy:
  "truthy ci \<Longrightarrow> nested_chunked (nested_response ci)"
  "truthy ci \<Longrightarrow> chunk_source (nested_response ci) = JObj [(''success'', JBool True), (''chunk_info'', ci)]"
  by (simp_all add: nested_chunked_def direct_link_def chunk_source_def nested_response_props
                    get_prop_JObj)

section \<open>Named chunks\<close>









section \<open>A named chunk that fails\<close>



section \<open>The index-derived fallback\<close>



lemma example_platform_props:
  "clock example_platform = 1700000000000"
  "str_num example_platform = example_number"
  "is_email example_platform = (\<lambda>s. CHR ''@'' \<in> set s)"
  "sha256 example_platform = rev"
  "utf8 example_platform = (\<lambda>s. s)"
  "base64 example_platform = (\<lambda>s. s)"
  by (simp_all add: example_platform_def)

lemma example_numbers:
  "example_number [] = Some 0"
  "example_number ''1'' = Some 1"
  "example_number ''10'' = Some 10"
  "example_number ''1700000005'' = Some 1700000005"
  "example_number ''1700000005.5'' = Some (3400000011 / 2)"
  "example_number ''8640000000001'' = Some 8640000000001"
  by (simp_all add: example_number_def)

lemma rate_limited_headers:
  "headers_get (rate_limited_response remaining reset) ''x-ratelimit-limit'' = Some ''240''"
  "headers_get (rate_limited_response remaining reset) ''x-ratelimit-remaining'' = Some remaining"
  "headers_get (rate_limited_response remaining reset) ''x-ratelimit-reset'' = Some reset"
  by (simp_all add: rate_limited_response_def)

section \<open>The rate limiter\<close>

text \<open>
  The limiter itself, where it is reached: it waits if and only if \<open>remaining\<close> is
  present and reads as a number of at most 1, \<open>reset\<close> is present and not empty, and
  \<open>reset\<close> times 1000 minus the clock is positive; the wait is that difference.
\<close>

lemma rate_limit_wait_iff:
  "rate_limit_wait pf res = Some d
   \<longleftrightarrow> (\<exists>remaining reset n r.
          headers_get res ''x-ratelimit-remaining'' = Some remaining
        \<and> str_num pf remaining = Some n \<and> n \<le> 1
        \<and> headers_get res ''x-ratelimit-reset'' = Some reset \<and> reset \<noteq> []
        \<and> str_num pf reset = Some r
        \<and> d = r * 1000 - of_int (clock pf) \<and> 0 < d)"
  by (auto simp: rate_limit_wait_def Let_def split: option.splits if_splits)

text \<open>
  With a reset five seconds, and five and a half seconds, after the clock the limiter
  waits 5000 and 5500 ms; with ten requests remaining it does not wait.
\<close>

lemma rate_limit_examples:
  "rate_limit example_platform (rate_limited_response ''1'' ''1700000005'')
     = Inr [Warned, Slept 5000]"
  "rate_limit example_platform (rate_limited_response ''1'' ''1700000005.5'')
     = Inr [Warned, Slept 5500]"
  "rate_limit example_platform (rate_limited_response ''10'' ''1700000005'') = Inr []"
  by (simp_all add: rate_limit_def log_rate_limit_def header_truthy_def valid_date_def
                    rate_limit_wait_def rate_limited_headers example_platform_props
                    example_numbers Let_def)

text \<open>
  C7. The log line before the limiter formats the reset time with \<open>toISOString\<close>, which
  throws on a date out of range. With \<open>remaining\<close> 1 and a reset of 8640000000001 seconds
  the condition of the claim holds (the limiter alone would wait 8638300000001000 ms),
  but \<open>request\<close> throws a RangeError after its fetch: no warning, no timer, no result.
\<close>

theorem rate_limit_log_throws_before_wait:
  "headers_get (rate_limited_response ''1'' ''8640000000001'') ''x-ratelimit-remaining''
     = Some ''1''
   \<and> str_num example_platform ''1'' = Some 1
   \<and> headers_get (rate_limited_response ''1'' ''8640000000001'') ''x-ratelimit-reset''
     = Some ''8640000000001''
   \<and> str_num example_platform ''8640000000001'' = Some 8640000000001
   \<and> 0 < (8640000000001 :: rat) * 1000 - of_int (clock example_platform)
   \<and> rate_limit_wait example_platform (rate_limited_response ''1'' ''8640000000001'')
     = Some 8638300000001000
   \<and> request example_platform (example_sdk (rate_limited_response ''1'' ''8640000000001''))
        ''/data/test'' no_options None
     = (Inl RangeError,
        [Fetched (JStr ''https://members-ng.iracing.com/data/test'')
           (Some (no_options\<lparr>init_headers := default_headers,
                              init_credentials := Some ''include''\<rparr>))])"
proof -
  let ?res = "rate_limited_response ''1'' ''8640000000001''"
  have headers: "headers_get ?res ''x-ratelimit-remaining'' = Some ''1''"
    "headers_get ?res ''x-ratelimit-reset'' = Some ''8640000000001''"
    by (simp_all add: rate_limited_headers)
  have numbers: "str_num example_platform ''1'' = Some 1"
    "str_num example_platform ''8640000000001'' = Some 8640000000001"
    by (simp_all add: example_platform_props example_numbers)
  have late: "0 < (8640000000001 :: rat) * 1000 - of_int (clock example_platform)"
    by (simp add: example_platform_props)
  have wait: "rate_limit_wait example_platform ?res = Some 8638300000001000"
    by (simp add: rate_limit_wait_def rate_limited_headers example_platform_props
                  example_numbers Let_def)
  have log: "rate_limit example_platform ?res = Inl RangeError"
    by (simp add: rate_limit_def log_rate_limit_def header_truthy_def valid_date_def
                  rate_limited_headers example_platform_props example_numbers Let_def)
  have served: "fetchImpl (example_sdk ?res)
      (JStr ''https://members-ng.iracing.com/data/test'')
      (Some (no_options\<lparr>init_headers := default_headers,
                         init_credentials := Some ''include''\<rparr>)) = Resolved ?res"
    by (simp add: example_sdk_def serve_def)
  have url: "build_url example_platform (example_sdk ?res) ''/data/test'' None
      = ''https://members-ng.iracing.com/data/test''"
    by (simp add: build_url_def example_sdk_def)
  have init: "no_options\<lparr>init_headers := merge_headers (init_headers no_options),
                        init_credentials := Some ''include''\<rparr>
      = no_options\<lparr>init_headers := default_headers, init_credentials := Some ''include''\<rparr>"
    by (simp add: merge_headers_def no_options_def)
  have run: "request example_platform (example_sdk ?res) ''/data/test'' no_options None
      = (Inl RangeError,
         [Fetched (JStr ''https://members-ng.iracing.com/data/test'')
            (Some (no_options\<lparr>init_headers := default_headers,
                               init_credentials := Some ''include''\<rparr>))])"
    by (simp add: request_def url init served log Let_def)
  from headers numbers late wait run show ?thesis by blast
qed

section \<open>The credential hash\<close>






section \<open>The gate of the executor\<close>

lemma nested_request:
  "request example_platform (example_sdk (json_response (nested_response named_chunk_info)))
     ''/data/test'' no_options None
   = (Inr (nested_response named_chunk_info),
      [Fetched (JStr ''https://members-ng.iracing.com/data/test'')
         (Some (no_options\<lparr>init_headers := default_headers,
                            init_credentials := Some ''include''\<rparr>))])"
  by (simp add: request_def build_url_def example_sdk_def serve_def json_response_def
                rate_limit_def log_rate_limit_def header_truthy_def rate_limit_wait_def
                merge_headers_def no_options_def)

lemma requestWithChunking_gate:
  assumes "request pf sdk path options query = (Inr r, evs)"
    and "r \<noteq> JNull" and "r \<noteq> JUndefined"
  shows "requestWithChunking pf sdk path options query handleChunks
     = (if (case handleChunks of Some b \<Rightarrow> b | None \<Rightarrow> autoHandleChunkedResponses sdk)
           \<and> (truthy (get_prop r ''chunk_info'') \<or> truthy (get_prop r ''link''))
        then (fst (handleChunkedResponse pf sdk r), evs @ snd (handleChunkedResponse pf sdk r))
        else (Inr r, evs))"
  using assms
  by (simp add: requestWithChunking_def js_get_get_prop Let_def split: prod.splits)

text \<open>
  C1. The executor hands a response to the resolver when chunk handling is on and the
  response has a truthy \<open>chunk_info\<close> or \<open>link\<close> at top level. A response whose
  \<open>chunk_info\<close> is under \<open>data\<close> only does not pass this test: with chunk handling on,
  \<open>requestWithChunking\<close> returns it as decoded, after the one request to the API, although
  the resolver, given the same response, fetches the three chunk files.
\<close>

theorem nested_only_response_returned_unresolved:
  "autoHandleChunkedResponses (example_sdk (json_response (nested_response named_chunk_info)))
   \<and> has_field (get_prop (nested_response named_chunk_info) ''data'') ''chunk_info''
   \<and> requestWithChunking example_platform
        (example_sdk (json_response (nested_response named_chunk_info)))
        ''/data/test'' no_options None None
       = (Inr (nested_response named_chunk_info),
          [Fetched (JStr ''https://members-ng.iracing.com/data/test'')
             (Some (no_options\<lparr>init_headers := default_headers,
                                init_credentials := Some ''include''\<rparr>))])
   \<and> snd (handleChunkedResponse example_platform
             (example_sdk (json_response (nested_response named_chunk_info)))
             (nested_response named_chunk_info))
       = [Fetched (JStr ''https://example.com/a.json'') None, Slept 100,
          Fetched (JStr ''https://example.com/b.json'') None, Slept 100,
          Fetched (JStr ''https://example.com/c.json'') None, Slept 100]
   \<and> get_prop (get_prop (nested_response named_chunk_info) ''data'') ''data'' = JUndefined"
proof -
  let ?r = "nested_response named_chunk_info"
  let ?sdk = "example_sdk (json_response ?r)"
  have auto_on: "autoHandleChunkedResponses ?sdk"
    by (simp add: example_sdk_def)
  have field: "has_field (get_prop ?r ''data'') ''chunk_info''"
    by (simp add: nested_response_props has_field_def)
  have proper: "?r \<noteq> JNull" "?r \<noteq> JUndefined"
    by (simp_all add: nested_response_def)
  have gate: "\<not> (truthy (get_prop ?r ''chunk_info'') \<or> truthy (get_prop ?r ''link''))"
    by (simp add: nested_response_props)
  have unresolved: "requestWithChunking example_platform ?sdk ''/data/test'' no_options None None
       = (Inr ?r,
          [Fetched (JStr ''https://members-ng.iracing.com/data/test'')
             (Some (no_options\<lparr>init_headers := default_headers,
                                init_credentials := Some ''include''\<rparr>))])"
    using requestWithChunking_gate [OF nested_request proper, of None] gate by simp
  have resolver: "snd (handleChunkedResponse example_platform ?sdk ?r)
       = [Fetched (JStr ''https://example.com/a.json'') None, Slept 100,
          Fetched (JStr ''https://example.com/b.json'') None, Slept 100,
          Fetched (JStr ''https://example.com/c.json'') None, Slept 100]"
    by (simp add: handle_nested nested_response_strategy named_chunk_info_props
                  nested_response_props resolve_nested_def get_prop_JObj non_empty_list_JArr
                  fetch_chunk_def example_sdk_def serve_def chunk_host_def json_response_def
                  Let_def)
  have no_data: "get_prop (get_prop ?r ''data'') ''data'' = JUndefined"
    by (simp add: nested_response_props get_prop_JObj)
  from auto_on field unresolved resolver no_data show ?thesis by blast
qed

end
